theory Spec2Isabelle
  imports Complex_Main
begin

section \<open>Numbers, dates and errors\<close>

text \<open>
  The gateway is Python. Its integers are unbounded and are modelled as \<open>int\<close>.
  A Python \<open>float\<close> is modelled as an exact rational number: the weights, the
  thresholds and the quotients of the scoring code are computed without the binary
  rounding of double arithmetic, and the special values (infinities, NaN) are not part
  of the model. A \<open>datetime.date\<close> is modelled as its day number (an \<open>int\<close>), so
  that adding \<open>timedelta(days=k)\<close> is adding \<open>k\<close>; the calendar's bounds
  (years 1 to 9999) are not part of the model.
\<close>

type_synonym py_float = rat

type_synonym py_date = int

text \<open>
  Python's \<open>round(x, ndigits)\<close>: the closest multiple of \<open>10 ^ -ndigits\<close>, a tie going
  to the multiple whose last digit is even.
\<close>

definition round_half_even :: "rat \<Rightarrow> int" where
  "round_half_even x =
     (let f = \<lfloor>x\<rfloor>; d = x - of_int f
      in if d < 1 / 2 then f
         else if 1 / 2 < d then f + 1
         else if even f then f else f + 1)"

definition py_round :: "py_float \<Rightarrow> nat \<Rightarrow> py_float" where
  "py_round x ndigits = of_int (round_half_even (x * 10 ^ ndigits)) / 10 ^ ndigits"

text \<open>Python's \<open>range(n)\<close>: the integers from 0 up to \<open>n - 1\<close>, none when \<open>n \<le> 0\<close>.\<close>

definition py_range :: "int \<Rightarrow> int list" where
  "py_range n = map int [0..<nat n]"

text \<open>
  The exceptions the domain code raises: \<open>InsufficientDataError\<close> is the repository's
  own (domain/exceptions.py), \<open>ZeroDivisionError\<close> is what Python's \<open>//\<close> and \<open>%\<close>
  raise on a zero divisor.
\<close>

datatype error = InsufficientDataError | ZeroDivisionError

section \<open>Domain models (domain/models.py)\<close>

record Installment =
  due_date :: py_date
  amount_cents :: int

record Transaction =
  transaction_id :: string
  date :: py_date
  amount_cents :: int
  type :: string
  description :: string
  category :: string
  merchant :: string
  balance_cents :: int
  nsf :: bool

record RiskFactors =
  avg_daily_balance_cents :: int
  total_income_cents :: int
  total_spend_cents :: int
  income_spend_ratio :: py_float
  nsf_count :: int
  transaction_count :: int
  days_with_transactions :: int

record CreditDecision =
  approved :: bool
  credit_limit_cents :: int
  score :: py_float
  score_band :: string
  risk_factors :: RiskFactors

section \<open>Date utilities (utils/date_utils.py)\<close>

definition generate_date_range :: "py_date \<Rightarrow> py_date \<Rightarrow> py_date list" where
  "generate_date_range start end =
     (let days = (end - start) + 1
      in map (\<lambda>i. start + i) (py_range days))"

section \<open>Risk scoring (domain/scoring.py)\<close>

text \<open>
  The first loop of \<open>analyze_transactions\<close>: every transaction, in sorted order, stores
  its balance under its date, so a later transaction of the same date overwrites an
  earlier one.
\<close>

fun balance_by_date :: "Transaction list \<Rightarrow> (py_date \<rightharpoonup> int) \<Rightarrow> (py_date \<rightharpoonup> int)" where
  "balance_by_date [] m = m"
| "balance_by_date (txn # txns) m = balance_by_date txns (m(date txn \<mapsto> balance_cents txn))"

text \<open>
  The second loop: \<open>last_known_balance\<close> and the list \<open>daily_balances\<close> are the loop's
  two variables.
\<close>

fun daily_balances :: "(py_date \<rightharpoonup> int) \<Rightarrow> py_date list \<Rightarrow> int \<Rightarrow> int list \<Rightarrow> int list" where
  "daily_balances m [] last_known_balance acc = acc"
| "daily_balances m (day # days) last_known_balance acc =
     (let last_known_balance' = (case m day of Some b \<Rightarrow> b | None \<Rightarrow> last_known_balance)
      in daily_balances m days last_known_balance' (acc @ [last_known_balance']))"

definition analyze_transactions :: "Transaction list \<Rightarrow> error + RiskFactors" where
  "analyze_transactions transactions =
     (if transactions = [] then Inl InsufficientDataError
      else
        let sorted_txns = sort_key date transactions;
            start_date = date (hd sorted_txns);
            end_date = date (last sorted_txns);
            by_date = balance_by_date sorted_txns Map.empty;
            all_dates = generate_date_range start_date end_date;
            balances = daily_balances by_date all_dates 0 [];
            avg_daily_balance =
              (if balances \<noteq> [] then sum_list balances div int (length balances) else 0);
            total_income =
              sum_list (map Transaction.amount_cents (filter (\<lambda>t. type t = ''credit'') transactions));
            total_spend =
              sum_list (map Transaction.amount_cents (filter (\<lambda>t. type t = ''debit'') transactions));
            ratio = (if total_spend > 0 then of_int total_income / of_int total_spend else 0);
            nsfs = int (length (filter (\<lambda>t. nsf t \<or> balance_cents t < 0) transactions));
            unique_dates = set (map date transactions)
        in Inr \<lparr>avg_daily_balance_cents = avg_daily_balance,
                total_income_cents = total_income,
                total_spend_cents = total_spend,
                income_spend_ratio = ratio,
                nsf_count = nsfs,
                transaction_count = int (length transactions),
                days_with_transactions = int (card unique_dates)\<rparr>)"

definition calculate_risk_score :: "RiskFactors \<Rightarrow> py_float" where
  "calculate_risk_score rf =
     (let balance_baseline = (100000 :: int);
          balance_score = min (of_int (avg_daily_balance_cents rf) / of_int balance_baseline) 1;
          income_score = min (income_spend_ratio rf) 1;
          nsf_score = (if nsf_count rf = 0 then 1 else 0);
          weighted = (4 / 10) * balance_score + (4 / 10) * income_score + (2 / 10) * nsf_score
      in py_round weighted 3)"

definition determine_credit_limit :: "py_float \<Rightarrow> bool \<times> int \<times> string" where
  "determine_credit_limit s =
     (if s < 2 / 10 then (False, 0, ''high_risk'')
      else if s < 4 / 10 then (True, 10000, ''moderate_risk'')
      else if s < 7 / 10 then (True, 40000, ''acceptable_risk'')
      else (True, 100000, ''low_risk''))"

definition make_credit_decision :: "Transaction list \<Rightarrow> error + CreditDecision" where
  "make_credit_decision transactions =
     (case analyze_transactions transactions of
        Inl e \<Rightarrow> Inl e
      | Inr rf \<Rightarrow>
          (let s = calculate_risk_score rf;
               (ok, credit_limit, band) = determine_credit_limit s
           in Inr \<lparr>approved = ok,
                   credit_limit_cents = credit_limit,
                   score = s,
                   score_band = band,
                   risk_factors = rf\<rparr>))"

section \<open>Installment plans (domain/installments.py)\<close>

text \<open>
  The arguments are \<open>amount_cents\<close>, \<open>num_installments\<close>, \<open>interval_days\<close>, the optional
  \<open>start_date\<close>, and the value of \<open>date.today()\<close>, which the code reads when no start
  date is given. \<open>div\<close> and \<open>mod\<close> on \<open>int\<close> round as Python's \<open>//\<close> and \<open>%\<close> do; the
  zero divisor is the one input where Python raises instead.
\<close>

definition generate_installment_plan ::
    "int \<Rightarrow> int \<Rightarrow> int \<Rightarrow> py_date option \<Rightarrow> py_date \<Rightarrow> error + Installment list" where
  "generate_installment_plan amount num_installments interval_days start_date today =
     (if amount \<le> 0 then Inr []
      else
        let start = (case start_date of None \<Rightarrow> today + interval_days | Some d \<Rightarrow> d)
        in if num_installments = 0 then Inl ZeroDivisionError
           else
             let base_amount = amount div num_installments;
                 remainder = amount mod num_installments
             in Inr (map (\<lambda>i. \<lparr>due_date = start + i * interval_days,
                                 amount_cents =
                                   base_amount + (if i = num_installments - 1 then remainder else 0)\<rparr>)
                         (py_range num_installments)))"

section \<open>Ledger webhook client (infrastructure/clients/ledger.py)\<close>

text \<open>
  What one \<open>client.post\<close> call ends in: a response with its status code, a timeout, or
  a connection error. The last two are raised by the HTTP library as subclasses of
  \<open>RequestError\<close>.
\<close>

datatype attempt_outcome = Response int | Timeout | ConnectError

datatype http_exception = HTTPStatusError | RequestError

text \<open>
  Modelled from the spec: \<open>Response.raise_for_status\<close> belongs to the HTTP library
  (httpx), which is not among the repository's files. Following the spec's
  "Success = any 2xx response", it returns for a status code from 200 to 299 and raises
  \<open>HTTPStatusError\<close> for every other one.
\<close>

definition raise_for_status :: "int \<Rightarrow> http_exception option" where
  "raise_for_status status_code =
     (if 200 \<le> status_code \<and> status_code \<le> 299 then None else Some HTTPStatusError)"

text \<open>
  The body of the \<open>try\<close> block: the exception it ends in, or \<open>None\<close> when it reaches
  \<open>return\<close>.
\<close>

definition try_post :: "attempt_outcome \<Rightarrow> http_exception option" where
  "try_post outcome =
     (case outcome of
        Response status_code \<Rightarrow> raise_for_status status_code
      | Timeout \<Rightarrow> Some RequestError
      | ConnectError \<Rightarrow> Some RequestError)"

record LedgerClient =
  webhook_url :: string
  max_retries :: int
  backoff_base :: py_float

text \<open>
  The effects of a delivery, in the order they happen: the number of \<open>client.post\<close>
  calls, the arguments of the \<open>asyncio.sleep\<close> calls, and the number of increments of
  \<open>webhook_failure_counter\<close>.
\<close>

record delivery_log =
  posts :: nat
  sleeps :: "py_float list"
  failures :: nat

text \<open>
  How the coroutine ends: it returns (\<open>Delivered\<close>), or the exception of the last
  attempt is raised again (\<open>DeliveryExhausted\<close>).
\<close>

datatype delivery = Delivered | DeliveryExhausted http_exception

text \<open>
  The \<open>while\<close> loop, with the loop variable \<open>attempt\<close>. The endpoint is a sequence of
  outcomes: its \<open>n\<close>-th element is what the \<open>n\<close>-th post ends in (counting from 0).
\<close>

function send_loop ::
    "LedgerClient \<Rightarrow> (nat \<Rightarrow> attempt_outcome) \<Rightarrow> int \<Rightarrow> delivery_log \<Rightarrow> delivery \<times> delivery_log" where
  "send_loop self endpoint attempt journal =
     (if attempt < max_retries self then
        (let posted = journal\<lparr>posts := posts journal + 1\<rparr>
         in case try_post (endpoint (posts journal)) of
              None \<Rightarrow> (Delivered, posted)
            | Some e \<Rightarrow>
                (let attempt' = attempt + 1;
                     counted = posted\<lparr>failures := failures posted + 1\<rparr>
                 in if attempt' \<ge> max_retries self then (DeliveryExhausted e, counted)
                    else
                      let backoff = backoff_base self * 2 ^ nat (attempt' - 1)
                      in send_loop self endpoint attempt'
                           (counted\<lparr>sleeps := sleeps counted @ [backoff]\<rparr>)))
      else (Delivered, journal))"
  by pat_completeness auto
termination
  by (relation "measure (\<lambda>(self, endpoint, attempt, journal). nat (max_retries self - attempt))") auto

declare send_loop.simps [simp del]

definition send_approval_event ::
    "LedgerClient \<Rightarrow> (nat \<Rightarrow> attempt_outcome) \<Rightarrow> delivery \<times> delivery_log" where
  "send_approval_event self endpoint =
     send_loop self endpoint 0 \<lparr>posts = 0, sleeps = [], failures = 0\<rparr>"

section \<open>The specification's wording, as definitions\<close>

text \<open>
  The score as the specification words it: each of the balance and income components is
  capped at 1 and floored at 0 before it is weighted.
\<close>

definition spec_risk_score :: "RiskFactors \<Rightarrow> py_float" where
  "spec_risk_score rf =
     (let balance = max 0 (min (of_int (avg_daily_balance_cents rf) / 100000) 1);
          income = max 0 (min (income_spend_ratio rf) 1);
          nsf_component = (if nsf_count rf = 0 then 1 else 0)
      in py_round ((4 / 10) * balance + (4 / 10) * income + (2 / 10) * nsf_component) 3)"

text \<open>
  The average daily balance as the specification words it. The known balance of a date
  is the balance of the last transaction of that date, in sorted order; a date with no
  transaction has none.
\<close>

definition spec_known_balance :: "Transaction list \<Rightarrow> py_date \<Rightarrow> int option" where
  "spec_known_balance txns d =
     (let on_day = filter (\<lambda>t. date t = d) (sort_key date txns)
      in if on_day = [] then None else Some (balance_cents (last on_day)))"

text \<open>
  The balance of the \<open>n\<close>-th day of the range that starts at \<open>start\<close>: the day's known
  balance, or else the balance of the day before; 0 when no day before has one.
\<close>

fun spec_day_balance :: "Transaction list \<Rightarrow> py_date \<Rightarrow> nat \<Rightarrow> int" where
  "spec_day_balance txns start 0 =
     (case spec_known_balance txns start of Some b \<Rightarrow> b | None \<Rightarrow> 0)"
| "spec_day_balance txns start (Suc n) =
     (case spec_known_balance txns (start + int (Suc n)) of
        Some b \<Rightarrow> b
      | None \<Rightarrow> spec_day_balance txns start n)"

text \<open>
  The floor of the sum of the balances of all days from the earliest to the latest date,
  both included, divided by the number of those days.
\<close>

definition spec_avg_daily_balance :: "Transaction list \<Rightarrow> int" where
  "spec_avg_daily_balance txns =
     (let lo = Min (set (map date txns));
          hi = Max (set (map date txns));
          days = nat (hi - lo + 1)
      in sum_list (map (spec_day_balance txns lo) [0..<days]) div int days)"

section \<open>Concrete inputs\<close>

text \<open>The two risk profiles of the repository's unit test of the score.\<close>

definition low_risk_factors :: RiskFactors where
  "low_risk_factors =
     \<lparr>avg_daily_balance_cents = 150000, total_income_cents = 900000,
      total_spend_cents = 600000, income_spend_ratio = 3 / 2, nsf_count = 0,
      transaction_count = 50, days_with_transactions = 30\<rparr>"

definition high_risk_factors :: RiskFactors where
  "high_risk_factors =
     \<lparr>avg_daily_balance_cents = 10000, total_income_cents = 200000,
      total_spend_cents = 250000, income_spend_ratio = 8 / 10, nsf_count = 3,
      transaction_count = 20, days_with_transactions = 10\<rparr>"

text \<open>
  An overdrawn account: one debit of 100 that leaves the balance at -100000. The
  analysis of this history gives the risk factors below it.
\<close>

definition overdrawn_history :: "Transaction list" where
  "overdrawn_history =
     [\<lparr>transaction_id = ''1'', date = 0, amount_cents = 100, type = ''debit'',
       description = ''Test'', category = ''test'', merchant = ''Test'',
       balance_cents = - 100000, nsf = False\<rparr>]"

definition overdrawn_factors :: RiskFactors where
  "overdrawn_factors =
     \<lparr>avg_daily_balance_cents = - 100000, total_income_cents = 0,
      total_spend_cents = 100, income_spend_ratio = 0, nsf_count = 1,
      transaction_count = 1, days_with_transactions = 1\<rparr>"

text \<open>
  The history of the unit test of the carry-forward: a balance of 100000 on day 0 and
  of 80000 on day 5.
\<close>

definition carry_forward_history :: "Transaction list" where
  "carry_forward_history =
     [\<lparr>transaction_id = ''1'', date = 0, amount_cents = 100, type = ''debit'',
       description = ''Test'', category = ''test'', merchant = ''Test'',
       balance_cents = 100000, nsf = False\<rparr>,
      \<lparr>transaction_id = ''2'', date = 5, amount_cents = 100, type = ''debit'',
       description = ''Test'', category = ''test'', merchant = ''Test'',
       balance_cents = 80000, nsf = False\<rparr>]"

text \<open>The client with the defaults of config.py, and the same client with no retry budget.\<close>

definition default_client :: LedgerClient where
  "default_client =
     \<lparr>webhook_url = ''http://localhost:8002/mock-ledger'', max_retries = 5, backoff_base = 1\<rparr>"

definition no_budget_client :: LedgerClient where
  "no_budget_client =
     \<lparr>webhook_url = ''http://localhost:8002/mock-ledger'', max_retries = 0, backoff_base = 1\<rparr>"

text \<open>
  Three endpoints: one that answers 500 to every post, one that times out twice and then
  answers 200, and one that answers 204 at once.
\<close>

definition always_failing :: "nat \<Rightarrow> attempt_outcome" where
  "always_failing n = Response 500"

definition third_time_lucky :: "nat \<Rightarrow> attempt_outcome" where
  "third_time_lucky n = (if n < 2 then Timeout else Response 200)"

definition always_accepting :: "nat \<Rightarrow> attempt_outcome" where
  "always_accepting n = Response 204"

section \<open>The credit-limit policy\<close>

text \<open>
  Claim C2. \<open>determine_credit_limit\<close> is a function of the score alone, defined on every
  score, with left-closed, right-open bands: a score in [0, 0.2) is declined with limit 0
  (high_risk); [0.2, 0.4) is approved with limit 10000 (moderate_risk); [0.4, 0.7) is
  approved with limit 40000 (acceptable_risk); [0.7, 1.0] is approved with limit 100000
  (low_risk). At the boundaries: 0.199 is declined, 0.2 and 0.399 get 10000, 0.4 and 0.699
  get 40000, 0.7 gets 100000.
\<close>

theorem determine_credit_limit_bands:
  "(0 \<le> s \<and> s < 2 / 10 \<longrightarrow> determine_credit_limit s = (False, 0, ''high_risk'')) \<and>
   (2 / 10 \<le> s \<and> s < 4 / 10 \<longrightarrow> determine_credit_limit s = (True, 10000, ''moderate_risk'')) \<and>
   (4 / 10 \<le> s \<and> s < 7 / 10 \<longrightarrow> determine_credit_limit s = (True, 40000, ''acceptable_risk'')) \<and>
   (7 / 10 \<le> s \<and> s \<le> 1 \<longrightarrow> determine_credit_limit s = (True, 100000, ''low_risk'')) \<and>
   determine_credit_limit (199 / 1000) = (False, 0, ''high_risk'') \<and>
   determine_credit_limit (2 / 10) = (True, 10000, ''moderate_risk'') \<and>
   determine_credit_limit (399 / 1000) = (True, 10000, ''moderate_risk'') \<and>
   determine_credit_limit (4 / 10) = (True, 40000, ''acceptable_risk'') \<and>
   determine_credit_limit (699 / 1000) = (True, 40000, ''acceptable_risk'') \<and>
   determine_credit_limit (7 / 10) = (True, 100000, ''low_risk'')"
  by (simp add: determine_credit_limit_def)

text \<open>The four bands at the scores the repository's unit test uses: 0.1, 0.3, 0.5, 0.8.\<close>

theorem determine_credit_limit_bands_witness:
  "determine_credit_limit (1 / 10) = (False, 0, ''high_risk'') \<and>
   determine_credit_limit (3 / 10) = (True, 10000, ''moderate_risk'') \<and>
   determine_credit_limit (5 / 10) = (True, 40000, ''acceptable_risk'') \<and>
   determine_credit_limit (8 / 10) = (True, 100000, ''low_risk'')"
  using determine_credit_limit_bands [of "1 / 10"] determine_credit_limit_bands [of "3 / 10"]
    determine_credit_limit_bands [of "5 / 10"] determine_credit_limit_bands [of "8 / 10"]
  by simp

section \<open>Installment plans\<close>

text \<open>
  Claim C10. For a positive amount, \<open>generate_installment_plan\<close> needs a number of
  installments other than 0: the division and the modulo are not guarded, so the call
  with \<open>num_installments = 0\<close> ends in a division-by-zero error instead of a plan, and
  zero is the only number of installments for which it does.
\<close>

theorem plan_zero_installments:
  "0 < amount \<Longrightarrow>
     (generate_installment_plan amount n interval_days start_date today = Inl ZeroDivisionError)
       = (n = 0)"
  by (simp add: generate_installment_plan_def Let_def)

theorem plan_zero_installments_witness:
  "(0 :: int) < 40000 \<and> generate_installment_plan 40000 0 14 None 0 = Inl ZeroDivisionError"
  using plan_zero_installments [of 40000 0 14 None 0] by simp

lemma sum_list_const_int: "sum_list (map (\<lambda>i. c) xs) = int (length xs) * (c :: int)"
  by (induction xs) (simp_all add: algebra_simps)

lemma plan_amounts_sum:
  "sum_list (map (\<lambda>i. b + (if int i = int k then r else 0)) [0..<Suc k]) = int (Suc k) * b + (r :: int)"
proof -
  have "map (\<lambda>i. b + (if i = k then r else 0)) [0..<k] = map (\<lambda>i. b) [0..<k]"
    by (rule map_cong) auto
  then have "sum_list (map (\<lambda>i. b + (if i = k then r else 0)) [0..<k]) = sum_list (map (\<lambda>i. b) [0..<k])"
    by (rule arg_cong)
  also have "\<dots> = int k * b"
    by (simp add: sum_list_const_int)
  finally show ?thesis
    by (simp add: algebra_simps)
qed

text \<open>
  Claim C3, as amended. For an amount of 0 or less the plan is empty. For a positive
  amount and at least one installment, the plan has exactly \<open>num_installments\<close>
  installments; all but the last are of \<open>amount div num_installments\<close>, the last adds
  \<open>amount mod num_installments\<close>, and the amounts add up to the amount; the \<open>i\<close>-th due
  date is the start date plus \<open>i\<close> times \<open>interval_days\<close>, so consecutive due dates
  differ by \<open>interval_days\<close>, and they increase strictly when \<open>interval_days\<close> is positive.
\<close>

theorem installment_plan_shape:
  "(amount \<le> 0 \<longrightarrow>
      generate_installment_plan amount n interval_days start_date today = Inr []) \<and>
   (0 < amount \<and> 1 \<le> n \<longrightarrow>
      (\<exists>plan. generate_installment_plan amount n interval_days start_date today = Inr plan \<and>
         int (length plan) = n \<and>
         (\<forall>i. int i < n - 1 \<longrightarrow> Installment.amount_cents (plan ! i) = amount div n) \<and>
         Installment.amount_cents (last plan) = amount div n + amount mod n \<and>
         sum_list (map Installment.amount_cents plan) = amount \<and>
         (\<forall>i. int i < n \<longrightarrow>
            due_date (plan ! i) =
              (case start_date of None \<Rightarrow> today + interval_days | Some d \<Rightarrow> d) + int i * interval_days) \<and>
         (\<forall>i. int (Suc i) < n \<longrightarrow> due_date (plan ! Suc i) - due_date (plan ! i) = interval_days) \<and>
         (0 < interval_days \<longrightarrow>
            (\<forall>i. int (Suc i) < n \<longrightarrow> due_date (plan ! i) < due_date (plan ! Suc i)))))"
proof (intro conjI impI)
  assume "amount \<le> 0"
  then show "generate_installment_plan amount n interval_days start_date today = Inr []"
    by (simp add: generate_installment_plan_def)
next
  assume h: "0 < amount \<and> 1 \<le> n"
  define start where "start = (case start_date of None \<Rightarrow> today + interval_days | Some d \<Rightarrow> d)"
  define plan where "plan = map (\<lambda>i. \<lparr>due_date = start + i * interval_days,
                                 amount_cents = amount div n + (if i = n - 1 then amount mod n else 0)\<rparr>)
                         (py_range n)"
  have eq: "generate_installment_plan amount n interval_days start_date today = Inr plan"
    using h by (simp add: generate_installment_plan_def Let_def plan_def start_def)
  have len: "length plan = nat n" by (simp add: plan_def py_range_def)
  have nth: "\<And>i. int i < n \<Longrightarrow> plan ! i = \<lparr>due_date = start + int i * interval_days,
                                 amount_cents = amount div n + (if int i = n - 1 then amount mod n else 0)\<rparr>"
    by (simp add: plan_def py_range_def)
  have ne: "plan \<noteq> []" using len h by auto
  have lst: "last plan = plan ! (nat n - 1)" using ne len by (simp add: last_conv_nth)
  have sum: "sum_list (map Installment.amount_cents plan) = amount"
  proof -
    obtain k where k: "nat n = Suc k" using h by (cases "nat n") auto
    then have nk: "n = int k + 1" by linarith
    have "map Installment.amount_cents plan =
        map (\<lambda>i. amount div n + (if int i = int k then amount mod n else 0)) [0..<Suc k]"
      unfolding plan_def py_range_def k by (simp add: nk)
    then have "sum_list (map Installment.amount_cents plan) = int (Suc k) * (amount div n) + amount mod n"
      by (simp only: plan_amounts_sum)
    also have "int (Suc k) = n" using nk by simp
    finally show ?thesis by (simp add: mult.commute)
  qed
  show "\<exists>plan. generate_installment_plan amount n interval_days start_date today = Inr plan \<and>
         int (length plan) = n \<and>
         (\<forall>i. int i < n - 1 \<longrightarrow> Installment.amount_cents (plan ! i) = amount div n) \<and>
         Installment.amount_cents (last plan) = amount div n + amount mod n \<and>
         sum_list (map Installment.amount_cents plan) = amount \<and>
         (\<forall>i. int i < n \<longrightarrow>
            due_date (plan ! i) =
              (case start_date of None \<Rightarrow> today + interval_days | Some d \<Rightarrow> d) + int i * interval_days) \<and>
         (\<forall>i. int (Suc i) < n \<longrightarrow> due_date (plan ! Suc i) - due_date (plan ! i) = interval_days) \<and>
         (0 < interval_days \<longrightarrow>
            (\<forall>i. int (Suc i) < n \<longrightarrow> due_date (plan ! i) < due_date (plan ! Suc i)))"
  proof (intro exI [of _ plan] conjI allI impI)
    show "generate_installment_plan amount n interval_days start_date today = Inr plan" by (rule eq)
    show "int (length plan) = n" using len h by simp
    show "Installment.amount_cents (plan ! i) = amount div n" if "int i < n - 1" for i
      using that nth [of i] by simp
    show "Installment.amount_cents (last plan) = amount div n + amount mod n"
    proof -
      have "int (nat n - 1) < n" "int (nat n - 1) = n - 1" using h by auto
      then show ?thesis using lst nth [of "nat n - 1"] by simp
    qed
    show "sum_list (map Installment.amount_cents plan) = amount" by (rule sum)
    show "due_date (plan ! i) = (case start_date of None \<Rightarrow> today + interval_days | Some d \<Rightarrow> d) + int i * interval_days"
      if "int i < n" for i using that nth [of i] by (simp add: start_def)
    show "due_date (plan ! Suc i) - due_date (plan ! i) = interval_days" if "int (Suc i) < n" for i
      using that nth [of i] nth [of "Suc i"] by (simp add: algebra_simps)
    show "due_date (plan ! i) < due_date (plan ! Suc i)" if "0 < interval_days" "int (Suc i) < n" for i
      using that nth [of i] nth [of "Suc i"] by (simp add: algebra_simps)
  qed
qed

text \<open>
  The zero amount, and the plan for 40003 in four installments, 14 days apart, starting
  at day 100: 10000, 10000, 10000, 10003.
\<close>

theorem installment_plan_shape_witness:
  "generate_installment_plan 0 4 14 None 0 = Inr [] \<and>
   generate_installment_plan 40003 4 14 (Some 100) 0 =
     Inr [\<lparr>due_date = 100, amount_cents = 10000\<rparr>, \<lparr>due_date = 114, amount_cents = 10000\<rparr>,
          \<lparr>due_date = 128, amount_cents = 10000\<rparr>, \<lparr>due_date = 142, amount_cents = 10003\<rparr>]"
proof -
  have a: "generate_installment_plan 0 4 14 None 0 = Inr []"
    using installment_plan_shape [of 0 4 14 None 0] by simp
  obtain plan where p: "generate_installment_plan 40003 4 14 (Some 100) 0 = Inr plan"
    and len: "int (length plan) = 4"
    and am: "\<forall>i. int i < 4 - 1 \<longrightarrow> Installment.amount_cents (plan ! i) = 40003 div 4"
    and la: "Installment.amount_cents (last plan) = 40003 div 4 + 40003 mod 4"
    and du: "\<forall>i. int i < 4 \<longrightarrow> due_date (plan ! i) = (case Some 100 of None \<Rightarrow> 0 + 14 | Some d \<Rightarrow> d) + int i * 14"
    using installment_plan_shape [of 40003 4 14 "Some 100" 0] by auto
  from len have l4: "length plan = 4" by simp
  then obtain a b c d where pl: "plan = [a, b, c, d]"
    by (auto simp: length_Suc_conv eval_nat_numeral)
  have "Installment.amount_cents a = 10000" "Installment.amount_cents b = 10000" "Installment.amount_cents c = 10000"
    using am [rule_format, of 0] am [rule_format, of 1] am [rule_format, of 2] by (simp_all add: pl)
  moreover have "Installment.amount_cents d = 10003" using la by (simp add: pl)
  moreover have "due_date a = 100" "due_date b = 114" "due_date c = 128" "due_date d = 142"
    using du [rule_format, of 0] du [rule_format, of 1] du [rule_format, of 2] du [rule_format, of 3] by (simp_all add: pl)
  ultimately have "plan = [\<lparr>due_date = 100, amount_cents = 10000\<rparr>, \<lparr>due_date = 114, amount_cents = 10000\<rparr>,
          \<lparr>due_date = 128, amount_cents = 10000\<rparr>, \<lparr>due_date = 142, amount_cents = 10003\<rparr>]"
    by (simp add: pl)
  with a p show ?thesis by simp
qed

text \<open>
  The claim as stated has the due dates increase strictly for every positive amount and
  every number of installments. The interval is an argument like the others and nothing
  restricts it: with \<open>interval_days = 0\<close> the two installments of the plan below fall
  due on the same day.
\<close>

theorem installment_plan_zero_interval_counterexample:
  "generate_installment_plan 100 2 0 (Some 100) 0 =
     Inr [\<lparr>due_date = 100, amount_cents = 50\<rparr>, \<lparr>due_date = 100, amount_cents = 50\<rparr>]"
  by (simp add: generate_installment_plan_def py_range_def Let_def upt_rec)

section \<open>The risk score\<close>

subsection \<open>Rounding\<close>

lemma round_half_even_mono: "x \<le> y \<Longrightarrow> round_half_even x \<le> round_half_even y"
proof -
  assume xy: "x \<le> y"
  have fl: "\<lfloor>x\<rfloor> \<le> \<lfloor>y\<rfloor>" using xy by (rule floor_mono)
  show ?thesis
  proof (cases "\<lfloor>x\<rfloor> = \<lfloor>y\<rfloor>")
    case True
    then have "x - of_int \<lfloor>x\<rfloor> \<le> y - of_int \<lfloor>y\<rfloor>" using xy by simp
    then show ?thesis using True
      by (auto simp: round_half_even_def Let_def)
  next
    case False
    then have "\<lfloor>x\<rfloor> + 1 \<le> \<lfloor>y\<rfloor>" using fl by simp
    moreover have "round_half_even x \<le> \<lfloor>x\<rfloor> + 1" by (simp add: round_half_even_def Let_def)
    moreover have "\<lfloor>y\<rfloor> \<le> round_half_even y" by (simp add: round_half_even_def Let_def)
    ultimately show ?thesis by linarith
  qed
qed

lemma py_round_mono: "x \<le> y \<Longrightarrow> py_round x n \<le> py_round y n"
proof -
  assume "x \<le> y"
  then have "x * 10 ^ n \<le> y * 10 ^ n" by (simp add: mult_right_mono)
  then have "round_half_even (x * 10 ^ n) \<le> round_half_even (y * 10 ^ n)"
    by (rule round_half_even_mono)
  then show ?thesis by (simp add: py_round_def divide_right_mono)
qed

lemma round_half_even_of_int: "round_half_even (of_int k) = k"
  by (simp add: round_half_even_def)

lemma py_round_0: "py_round 0 n = 0"
  by (simp add: py_round_def round_half_even_def)

lemma py_round_1: "py_round 1 3 = 1"
  using round_half_even_of_int [of 1000] by (simp add: py_round_def)

subsection \<open>Monotonicity\<close>

text \<open>
  Claim C9. The score does not decrease when the average daily balance grows, nor when
  the income/spend ratio grows, all other risk factors being the same.
\<close>

theorem calculate_risk_score_monotone:
  "(a \<le> b \<longrightarrow>
      calculate_risk_score (rf\<lparr>avg_daily_balance_cents := a\<rparr>)
        \<le> calculate_risk_score (rf\<lparr>avg_daily_balance_cents := b\<rparr>)) \<and>
   (x \<le> y \<longrightarrow>
      calculate_risk_score (rf\<lparr>income_spend_ratio := x\<rparr>)
        \<le> calculate_risk_score (rf\<lparr>income_spend_ratio := y\<rparr>))"
proof (intro conjI impI)
  assume ab: "a \<le> b"
  then have "(of_int a :: rat) / 100000 \<le> of_int b / 100000" by (simp add: divide_right_mono)
  then have "min ((of_int a :: rat) / 100000) 1 \<le> min (of_int b / 100000) 1" by (simp add: min_le_iff_disj)
  then show "calculate_risk_score (rf\<lparr>avg_daily_balance_cents := a\<rparr>)
        \<le> calculate_risk_score (rf\<lparr>avg_daily_balance_cents := b\<rparr>)"
    unfolding calculate_risk_score_def Let_def
    by (intro py_round_mono) simp
next
  assume "x \<le> y"
  then have "min x 1 \<le> min y 1" by (simp add: min_le_iff_disj)
  then show "calculate_risk_score (rf\<lparr>income_spend_ratio := x\<rparr>)
        \<le> calculate_risk_score (rf\<lparr>income_spend_ratio := y\<rparr>)"
    unfolding calculate_risk_score_def Let_def
    by (intro py_round_mono) simp
qed

text \<open>
  The high-risk profile of the unit test, with its balance raised from 10000 to 20000
  and with its ratio raised from 0.8 to 0.9.
\<close>

theorem calculate_risk_score_monotone_witness:
  "calculate_risk_score (high_risk_factors\<lparr>avg_daily_balance_cents := 10000\<rparr>)
     \<le> calculate_risk_score (high_risk_factors\<lparr>avg_daily_balance_cents := 20000\<rparr>) \<and>
   calculate_risk_score (high_risk_factors\<lparr>income_spend_ratio := 8 / 10\<rparr>)
     \<le> calculate_risk_score (high_risk_factors\<lparr>income_spend_ratio := 9 / 10\<rparr>)"
  using calculate_risk_score_monotone [of 10000 20000 high_risk_factors "8 / 10" "9 / 10"]
  by simp

subsection \<open>The formula and the range of the score\<close>

text \<open>
  The two profiles of the unit test: the low-risk one scores 1, the high-risk one 0.36.
\<close>

lemma score_low: "calculate_risk_score low_risk_factors = 1"
  unfolding low_risk_factors_def by code_simp

lemma score_high: "calculate_risk_score high_risk_factors = 36 / 100"
  unfolding high_risk_factors_def by code_simp

text \<open>
  The score never exceeds 1, it is a multiple of 0.001, and it is that of the
  specification's formula, hence at least 0, whenever neither the average balance nor
  the income/spend ratio is negative.
\<close>

lemma calculate_risk_score_le_1: "calculate_risk_score rf \<le> 1"
proof -
  have "py_round ((4 / 10) * min (of_int (avg_daily_balance_cents rf) / of_int (100000 :: int)) 1
          + (4 / 10) * min (income_spend_ratio rf) 1
          + (2 / 10) * (if nsf_count rf = 0 then 1 else 0)) 3 \<le> py_round 1 3"
    by (rule py_round_mono) (simp add: min_def)
  then show ?thesis by (simp add: calculate_risk_score_def Let_def py_round_1)
qed

lemma calculate_risk_score_nonneg:
  assumes "0 \<le> avg_daily_balance_cents rf" "0 \<le> income_spend_ratio rf"
  shows "0 \<le> calculate_risk_score rf"
proof -
  have "py_round 0 3 \<le> py_round ((4 / 10) * min (of_int (avg_daily_balance_cents rf) / of_int (100000 :: int)) 1
          + (4 / 10) * min (income_spend_ratio rf) 1
          + (2 / 10) * (if nsf_count rf = 0 then 1 else 0)) 3"
    using assms by (intro py_round_mono) (simp add: min_def)
  then show ?thesis by (simp add: calculate_risk_score_def Let_def py_round_0)
qed

lemma calculate_risk_score_three_decimals:
  "\<exists>k :: int. calculate_risk_score rf = of_int k / 1000"
  by (simp add: calculate_risk_score_def Let_def py_round_def)

lemma calculate_risk_score_agrees:
  assumes "0 \<le> avg_daily_balance_cents rf" "0 \<le> income_spend_ratio rf"
  shows "calculate_risk_score rf = spec_risk_score rf"
  using assms by (simp add: calculate_risk_score_def spec_risk_score_def Let_def max_def min_def)

text \<open>
  Claim C1. The claim has the balance and income components floored at 0. The code caps
  them at 1 and has no floor: for the risk factors of an overdrawn account it returns
  the score -0.4, where the formula of the claim gives 0.
\<close>

theorem negative_balance_score:
  "calculate_risk_score overdrawn_factors = - (4 / 10) \<and>
   spec_risk_score overdrawn_factors = 0"
  unfolding overdrawn_factors_def by code_simp

text \<open>
  Claim C6. The claim has the score of every decision in the interval from 0 to 1. For
  the history of the overdrawn account, a single debit that leaves the balance at
  -100000, the decision carries the score -0.4.
\<close>

theorem overdrawn_decision:
  "make_credit_decision overdrawn_history =
     Inr \<lparr>approved = False, credit_limit_cents = 0, score = - (4 / 10),
          score_band = ''high_risk'', risk_factors = overdrawn_factors\<rparr>"
  unfolding overdrawn_history_def overdrawn_factors_def by code_simp

section \<open>The analysis of transactions\<close>

text \<open>
  Claim C7. \<open>analyze_transactions\<close> fails exactly on the empty list of transactions, and
  then with \<open>InsufficientDataError\<close>; on every other list it returns risk factors; and
  \<open>make_credit_decision\<close> fails exactly when the analysis does, with the same error.
\<close>

theorem analyze_transactions_insufficient_data:
  "(analyze_transactions ts = Inl e \<longleftrightarrow> ts = [] \<and> e = InsufficientDataError) \<and>
   (ts \<noteq> [] \<longrightarrow> (\<exists>rf. analyze_transactions ts = Inr rf)) \<and>
   (make_credit_decision ts = Inl e \<longleftrightarrow> analyze_transactions ts = Inl e)"
  by (auto simp: analyze_transactions_def make_credit_decision_def Let_def split: sum.splits prod.splits)

theorem analyze_transactions_insufficient_data_witness:
  "analyze_transactions [] = Inl InsufficientDataError \<and>
   make_credit_decision [] = Inl InsufficientDataError \<and>
   (\<exists>rf. analyze_transactions overdrawn_history = Inr rf)"
proof -
  have "overdrawn_history \<noteq> []" by (simp add: overdrawn_history_def)
  then show ?thesis
    using analyze_transactions_insufficient_data [of "[]" InsufficientDataError]
      analyze_transactions_insufficient_data [of overdrawn_history InsufficientDataError]
    by simp
qed

subsection \<open>The two loops\<close>

lemma balance_by_date_filter:
  "balance_by_date xs m d =
     (if filter (\<lambda>t. date t = d) xs = [] then m d
      else Some (balance_cents (last (filter (\<lambda>t. date t = d) xs))))"
  by (induction xs arbitrary: m) auto

lemma balance_by_date_known:
  "balance_by_date (sort_key date txns) Map.empty d = spec_known_balance txns d"
  by (simp add: balance_by_date_filter spec_known_balance_def Let_def)

lemma carry_step:
  "(case spec_known_balance txns (start + int k) of
      Some b \<Rightarrow> b
    | None \<Rightarrow> (case k of 0 \<Rightarrow> 0 | Suc j \<Rightarrow> spec_day_balance txns start j))
     = spec_day_balance txns start k"
  by (cases k) (auto split: option.splits)

lemma daily_balances_spec:
  "k \<le> n \<Longrightarrow>
   daily_balances (spec_known_balance txns) (map (\<lambda>i. start + int i) [k..<n])
       (case k of 0 \<Rightarrow> 0 | Suc j \<Rightarrow> spec_day_balance txns start j) acc
     = acc @ map (spec_day_balance txns start) [k..<n]"
proof (induction "n - k" arbitrary: k acc)
  case 0
  then show ?case by simp
next
  case (Suc d)
  then have kn: "k < n" and d: "d = n - Suc k" by auto
  have up: "[k..<n] = k # [Suc k..<n]" using kn by (simp add: upt_conv_Cons)
  have "daily_balances (spec_known_balance txns) (map (\<lambda>i. start + int i) [k..<n])
       (case k of 0 \<Rightarrow> 0 | Suc j \<Rightarrow> spec_day_balance txns start j) acc
     = daily_balances (spec_known_balance txns) (map (\<lambda>i. start + int i) [Suc k..<n])
         (spec_day_balance txns start k) (acc @ [spec_day_balance txns start k])"
    unfolding up by (simp add: carry_step Let_def)
  also have "\<dots> = (acc @ [spec_day_balance txns start k]) @ map (spec_day_balance txns start) [Suc k..<n]"
    using Suc.hyps(1) [OF d, of "acc @ [spec_day_balance txns start k]"] kn by simp
  finally show ?case unfolding up by simp
qed

lemma generate_date_range_map:
  "generate_date_range lo hi = map (\<lambda>i. lo + int i) [0..<nat (hi - lo + 1)]"
  by (simp add: generate_date_range_def py_range_def Let_def comp_def)

lemma generate_date_range_set: "set (generate_date_range lo hi) = {lo..hi}"
proof -
  have "set (generate_date_range lo hi) = (\<lambda>i. lo + int i) ` {0..<nat (hi - lo + 1)}"
    by (simp add: generate_date_range_map)
  also have "\<dots> = {lo..hi}"
  proof (intro set_eqI iffI)
    fix d assume "d \<in> (\<lambda>i. lo + int i) ` {0..<nat (hi - lo + 1)}"
    then show "d \<in> {lo..hi}" by auto
  next
    fix d assume d: "d \<in> {lo..hi}"
    then have "d = lo + int (nat (d - lo))" "nat (d - lo) \<in> {0..<nat (hi - lo + 1)}" by auto
    then show "d \<in> (\<lambda>i. lo + int i) ` {0..<nat (hi - lo + 1)}" by (rule image_eqI)
  qed
  finally show ?thesis .
qed

lemma generate_date_range_distinct: "distinct (generate_date_range lo hi)"
  by (simp add: generate_date_range_map distinct_map inj_on_def)

lemma generate_date_range_sorted: "sorted (generate_date_range lo hi)"
  by (simp add: generate_date_range_map sorted_map)

lemma daily_balances_range:
  "daily_balances (balance_by_date (sort_key date txns) Map.empty) (generate_date_range lo hi) 0 []
     = map (spec_day_balance txns lo) [0..<nat (hi - lo + 1)]"
proof -
  have m: "balance_by_date (sort_key date txns) Map.empty = spec_known_balance txns"
    by (rule ext) (rule balance_by_date_known)
  show ?thesis
    using daily_balances_spec [of 0 "nat (hi - lo + 1)" txns lo "[]"]
    by (simp add: m generate_date_range_map)
qed

lemma hd_sorted_Min:
  assumes "ts \<noteq> []"
  shows "date (hd (sort_key date ts)) = Min (set (map date ts))"
proof -
  let ?s = "sort_key date ts"
  have ne: "?s \<noteq> []" using assms by (metis length_sort length_0_conv)
  have srt: "sorted (map date ?s)" by (rule sorted_sort_key)
  have st: "set (map date ?s) = set (map date ts)" by simp
  have "hd (map date ?s) = Min (set (map date ?s))"
    using srt ne by (cases ?s) (auto intro!: Min_eqI [symmetric])
  then show ?thesis using ne st by (simp add: hd_map)
qed

lemma last_sorted_Max:
  assumes "ts \<noteq> []"
  shows "date (last (sort_key date ts)) = Max (set (map date ts))"
proof -
  let ?s = "sort_key date ts"
  have ne: "?s \<noteq> []" using assms by (metis length_sort length_0_conv)
  have srt: "sorted (map date ?s)" by (rule sorted_sort_key)
  have st: "set (map date ?s) = set (map date ts)" by simp
  have "last (map date ?s) = Max (set (map date ?s))"
  proof (rule Max_eqI [symmetric])
    show "finite (set (map date ?s))" by simp
    show "last (map date ?s) \<in> set (map date ?s)" using ne by (intro last_in_set) simp
    fix y assume "y \<in> set (map date ?s)"
    then obtain i where i: "i < length (map date ?s)" "y = map date ?s ! i"
      by (metis in_set_conv_nth)
    then have "map date ?s ! i \<le> map date ?s ! (length (map date ?s) - 1)"
      using srt by (intro sorted_nth_mono) auto
    then show "y \<le> last (map date ?s)" using i ne by (simp add: last_conv_nth)
  qed
  then show ?thesis using ne st by (simp add: last_map)
qed

lemma known_balance_input_order:
  "spec_known_balance txns d =
     (if filter (\<lambda>t. date t = d) txns = [] then None
      else Some (balance_cents (last (filter (\<lambda>t. date t = d) txns))))"
  by (simp add: spec_known_balance_def Let_def sort_key_stable)

subsection \<open>The average daily balance\<close>

text \<open>
  Claim C4. For a list of transactions that is not empty, the analysis starts at the
  earliest date and ends at the latest; the range of dates it expands holds every day
  from the one to the other exactly once; the balances it collects are, day by day, the
  known balance of the day or else the balance carried forward; and the average daily
  balance is the floor of their sum divided by the number of days.
\<close>

theorem analyze_transactions_avg_daily_balance:
  assumes "transactions \<noteq> []"
  shows "\<exists>rf. analyze_transactions transactions = Inr rf \<and>
           avg_daily_balance_cents rf = spec_avg_daily_balance transactions \<and>
           date (hd (sort_key date transactions)) = Min (set (map date transactions)) \<and>
           date (last (sort_key date transactions)) = Max (set (map date transactions)) \<and>
           set (generate_date_range (Min (set (map date transactions))) (Max (set (map date transactions))))
             = {Min (set (map date transactions)) .. Max (set (map date transactions))} \<and>
           distinct (generate_date_range (Min (set (map date transactions))) (Max (set (map date transactions)))) \<and>
           daily_balances (balance_by_date (sort_key date transactions) Map.empty)
               (generate_date_range (Min (set (map date transactions))) (Max (set (map date transactions)))) 0 []
             = map (spec_day_balance transactions (Min (set (map date transactions))))
                 [0..<nat (Max (set (map date transactions)) - Min (set (map date transactions)) + 1)]"
proof -
  let ?lo = "Min (set (map date transactions))"
  let ?hi = "Max (set (map date transactions))"
  have lo: "date (hd (sort_key date transactions)) = ?lo" using assms by (rule hd_sorted_Min)
  have hi: "date (last (sort_key date transactions)) = ?hi" using assms by (rule last_sorted_Max)
  have "?lo \<in> set (map date transactions)" using assms by (intro Min_in) auto
  then have "?lo \<le> ?hi" by (intro Max_ge) auto
  then have days: "0 < nat (?hi - ?lo + 1)" by simp
  obtain rf where rf: "analyze_transactions transactions = Inr rf"
    using assms by (auto simp: analyze_transactions_def Let_def)
  have "avg_daily_balance_cents rf =
      sum_list (map (spec_day_balance transactions ?lo) [0..<nat (?hi - ?lo + 1)])
        div int (nat (?hi - ?lo + 1))"
    using rf assms days
    by (auto simp: analyze_transactions_def Let_def lo hi daily_balances_range simp del: set_map)
  then have "avg_daily_balance_cents rf = spec_avg_daily_balance transactions"
    by (simp add: spec_avg_daily_balance_def Let_def del: set_map)
  then show ?thesis
    using rf lo hi generate_date_range_set generate_date_range_distinct daily_balances_range
    by blast
qed

text \<open>
  The history of the unit test of the carry-forward: the range ends at the latest
  transaction, so it has six days, five at 100000 and the sixth at 80000, and they
  average to 96666. (The unit test itself expects 90909, the average of eleven days: it
  counts the days after the latest transaction, up to the day the test runs.)
\<close>

lemma spec_avg_carry_forward: "spec_avg_daily_balance carry_forward_history = 96666"
  unfolding carry_forward_history_def by code_simp

theorem analyze_transactions_avg_daily_balance_witness:
  "carry_forward_history \<noteq> [] \<and>
   (\<exists>rf. analyze_transactions carry_forward_history = Inr rf \<and>
         avg_daily_balance_cents rf = 96666)"
proof -
  have ne: "carry_forward_history \<noteq> []" by (simp add: carry_forward_history_def)
  show ?thesis
    using analyze_transactions_avg_daily_balance [OF ne] ne
    by (auto simp: spec_avg_carry_forward)
qed

section \<open>Webhook delivery\<close>

subsection \<open>The retry loop\<close>

lemma send_loop_failures:
  assumes "0 \<le> attempt"
    and "attempt + int m < max_retries self"
    and "\<forall>i<m. try_post (endpoint (posts j + i)) \<noteq> None"
  shows "send_loop self endpoint attempt j =
           send_loop self endpoint (attempt + int m)
             (j\<lparr>posts := posts j + m,
                failures := failures j + m,
                sleeps := sleeps j @ map (\<lambda>i. backoff_base self * 2 ^ (nat attempt + i)) [0..<m]\<rparr>)"
  using assms
proof (induction m arbitrary: attempt j)
  case 0
  then show ?case by simp
next
  case (Suc m)
  from Suc.prems(3) obtain e where e: "try_post (endpoint (posts j)) = Some e"
    by (metis add.right_neutral not_Some_eq zero_less_Suc)
  let ?j = "j\<lparr>posts := posts j + 1, failures := failures j + 1,
               sleeps := sleeps j @ [backoff_base self * 2 ^ nat attempt]\<rparr>"
  have step: "send_loop self endpoint attempt j = send_loop self endpoint (attempt + 1) ?j"
    using Suc.prems(1,2) e by (subst send_loop.simps) (simp add: Let_def)
  have rest: "\<forall>i<m. try_post (endpoint (posts ?j + i)) \<noteq> None"
    using Suc.prems(3) by (auto dest: spec [of _ "Suc i" for i])
  have "send_loop self endpoint (attempt + 1) ?j =
      send_loop self endpoint (attempt + 1 + int m)
        (?j\<lparr>posts := posts ?j + m, failures := failures ?j + m,
            sleeps := sleeps ?j @ map (\<lambda>i. backoff_base self * 2 ^ (nat (attempt + 1) + i)) [0..<m]\<rparr>)"
    using Suc.prems(1,2) by (intro Suc.IH rest) auto
  also have "map (\<lambda>i. backoff_base self * 2 ^ (nat (attempt + 1) + i)) [0..<m]
      = map (\<lambda>i. backoff_base self * 2 ^ (nat attempt + i)) [Suc 0..<Suc m]"
    using Suc.prems(1) by (simp add: map_Suc_upt [symmetric] nat_add_distrib del: upt_Suc)
  finally show ?case
    using step by (simp add: upt_conv_Cons [of 0] add.assoc del: upt_Suc)
qed


lemma send_approval_event_delivered:
  assumes "int k < max_retries self"
    and "\<forall>i<k. try_post (endpoint i) \<noteq> None"
    and "try_post (endpoint k) = None"
  shows "send_approval_event self endpoint =
           (Delivered, \<lparr>posts = Suc k,
                        sleeps = map (\<lambda>i. backoff_base self * 2 ^ i) [0..<k],
                        failures = k\<rparr>)"
proof -
  let ?j = "\<lparr>posts = k, sleeps = map (\<lambda>i. backoff_base self * 2 ^ i) [0..<k], failures = k\<rparr>"
  have "send_approval_event self endpoint = send_loop self endpoint (int k) ?j"
    unfolding send_approval_event_def
    using send_loop_failures [of 0 k self endpoint "\<lparr>posts = 0, sleeps = [], failures = 0\<rparr>"] assms(1,2)
    by simp
  also have "\<dots> = (Delivered, ?j\<lparr>posts := posts ?j + 1\<rparr>)"
    using assms(1,3) by (subst send_loop.simps) (simp add: Let_def)
  finally show ?thesis by simp
qed

lemma send_approval_event_exhausted:
  assumes "1 \<le> max_retries self"
    and "\<forall>i<nat (max_retries self). try_post (endpoint i) \<noteq> None"
  shows "\<exists>e. try_post (endpoint (nat (max_retries self) - 1)) = Some e \<and>
           send_approval_event self endpoint =
             (DeliveryExhausted e,
              \<lparr>posts = nat (max_retries self),
               sleeps = map (\<lambda>i. backoff_base self * 2 ^ i) [0..<nat (max_retries self) - 1],
               failures = nat (max_retries self)\<rparr>)"
proof -
  define k where "k = nat (max_retries self) - 1"
  have mk: "max_retries self = int k + 1" using assms(1) by (simp add: k_def)
  have fails: "\<forall>i<k. try_post (endpoint i) \<noteq> None" using assms(2) by (simp add: k_def)
  obtain e where e: "try_post (endpoint k) = Some e"
    using assms(2) mk by (metis option.exhaust diff_less k_def zero_less_nat_eq zero_less_one assms(1) less_le_trans)
  let ?j = "\<lparr>posts = k, sleeps = map (\<lambda>i. backoff_base self * 2 ^ i) [0..<k], failures = k\<rparr>"
  have "send_approval_event self endpoint = send_loop self endpoint (int k) ?j"
    unfolding send_approval_event_def
    using send_loop_failures [of 0 k self endpoint "\<lparr>posts = 0, sleeps = [], failures = 0\<rparr>"] fails mk
    by simp
  also have "\<dots> = (DeliveryExhausted e, ?j\<lparr>posts := posts ?j + 1, failures := failures ?j + 1\<rparr>)"
    using mk e by (subst send_loop.simps) (simp add: Let_def)
  finally have "send_approval_event self endpoint =
      (DeliveryExhausted e, \<lparr>posts = Suc k, sleeps = map (\<lambda>i. backoff_base self * 2 ^ i) [0..<k], failures = Suc k\<rparr>)"
    by simp
  moreover have "Suc k = nat (max_retries self)" using mk by simp
  ultimately show ?thesis using e by (simp add: k_def)
qed

text \<open>
  Claim C5, as amended. When the first success is the \<open>k\<close>-th attempt, with \<open>k\<close> at most
  \<open>max_retries\<close>, the delivery makes exactly \<open>k\<close> attempts and \<open>k - 1\<close> sleeps and returns.
  When \<open>max_retries\<close> is at least 1 and every attempt fails, it makes exactly
  \<open>max_retries\<close> attempts, sleeps \<open>backoff_base\<close> times 2 to the power \<open>attempt - 1\<close> after
  every failed attempt but the last, and ends by raising the exception of the last
  attempt; it makes no attempt after that.
\<close>

theorem send_approval_event_schedule:
  "(1 \<le> k \<and> int k \<le> max_retries self \<and>
    (\<forall>i<k - 1. try_post (endpoint i) \<noteq> None) \<and> try_post (endpoint (k - 1)) = None \<longrightarrow>
      send_approval_event self endpoint =
        (Delivered, \<lparr>posts = k,
                     sleeps = map (\<lambda>i. backoff_base self * 2 ^ i) [0..<k - 1],
                     failures = k - 1\<rparr>)) \<and>
   (1 \<le> max_retries self \<and> (\<forall>i<nat (max_retries self). try_post (endpoint i) \<noteq> None) \<longrightarrow>
      (\<exists>e. try_post (endpoint (nat (max_retries self) - 1)) = Some e \<and>
           send_approval_event self endpoint =
             (DeliveryExhausted e,
              \<lparr>posts = nat (max_retries self),
               sleeps = map (\<lambda>i. backoff_base self * 2 ^ i) [0..<nat (max_retries self) - 1],
               failures = nat (max_retries self)\<rparr>)))"
proof (intro conjI impI)
  assume h: "1 \<le> k \<and> int k \<le> max_retries self \<and>
    (\<forall>i<k - 1. try_post (endpoint i) \<noteq> None) \<and> try_post (endpoint (k - 1)) = None"
  then have "int (k - 1) < max_retries self" by auto
  with h show "send_approval_event self endpoint =
        (Delivered, \<lparr>posts = k,
                     sleeps = map (\<lambda>i. backoff_base self * 2 ^ i) [0..<k - 1],
                     failures = k - 1\<rparr>)"
    using send_approval_event_delivered [of "k - 1" self endpoint] by simp
next
  assume "1 \<le> max_retries self \<and> (\<forall>i<nat (max_retries self). try_post (endpoint i) \<noteq> None)"
  then show "\<exists>e. try_post (endpoint (nat (max_retries self) - 1)) = Some e \<and>
           send_approval_event self endpoint =
             (DeliveryExhausted e,
              \<lparr>posts = nat (max_retries self),
               sleeps = map (\<lambda>i. backoff_base self * 2 ^ i) [0..<nat (max_retries self) - 1],
               failures = nat (max_retries self)\<rparr>)"
    using send_approval_event_exhausted [of self endpoint] by blast
qed

text \<open>
  The defaults of the configuration, five attempts and a base of one second: a success
  at the third attempt after sleeps of 1 and 2 seconds, and an endpoint that always
  fails, given up after five attempts and sleeps of 1, 2, 4 and 8 seconds.
\<close>

lemma always_failing_fails: "try_post (always_failing i) \<noteq> None"
  by (simp add: always_failing_def try_post_def raise_for_status_def)

theorem send_approval_event_schedule_witness:
  "send_approval_event default_client third_time_lucky =
     (Delivered, \<lparr>posts = 3, sleeps = [1, 2], failures = 2\<rparr>) \<and>
   send_approval_event default_client always_failing =
     (DeliveryExhausted HTTPStatusError, \<lparr>posts = 5, sleeps = [1, 2, 4, 8], failures = 5\<rparr>)"
proof -
  have a: "1 \<le> (3::nat) \<and> int 3 \<le> max_retries default_client \<and>
    (\<forall>i<3 - 1. try_post (third_time_lucky i) \<noteq> None) \<and> try_post (third_time_lucky (3 - 1)) = None"
    by (simp add: default_client_def third_time_lucky_def try_post_def raise_for_status_def)
  have b: "1 \<le> max_retries default_client \<and>
    (\<forall>i<nat (max_retries default_client). try_post (always_failing i) \<noteq> None)"
    by (simp add: default_client_def always_failing_fails)
  have u: "[0..<4] = [0, 1, 2, 3]" "[0..<2] = [0, 1]" by (simp_all add: upt_rec)
  show ?thesis
    using send_approval_event_schedule [of 3 default_client third_time_lucky, THEN conjunct1, rule_format, OF a]
      send_approval_event_schedule [of 3 default_client always_failing, THEN conjunct2, rule_format, OF b]
    by (auto simp: default_client_def u always_failing_def try_post_def raise_for_status_def)
qed

text \<open>
  The claim as stated has every delivery whose attempts all fail end in
  \<open>DeliveryExhausted\<close>. With a retry budget of 0 the loop is never entered: the delivery
  returns as a delivered one does, without a single attempt, whatever the endpoint
  would have answered.
\<close>

theorem send_approval_event_no_budget_counterexample:
  "send_approval_event no_budget_client always_failing =
     (Delivered, \<lparr>posts = 0, sleeps = [], failures = 0\<rparr>)"
  by (simp add: send_approval_event_def no_budget_client_def send_loop.simps)

subsection \<open>What counts as a success\<close>

lemma try_post_2xx:
  "(try_post outcome = None) = (\<exists>c. outcome = Response c \<and> 200 \<le> c \<and> c \<le> 299)"
  by (cases outcome) (auto simp: try_post_def raise_for_status_def)

lemma first_success:
  assumes "int k < max_retries self" "try_post (endpoint k) = None"
  shows "\<exists>k0\<le>k. try_post (endpoint k0) = None \<and>
           send_approval_event self endpoint =
             (Delivered, \<lparr>posts = Suc k0,
                          sleeps = map (\<lambda>i. backoff_base self * 2 ^ i) [0..<k0],
                          failures = k0\<rparr>)"
proof -
  define k0 where "k0 = (LEAST n. try_post (endpoint n) = None)"
  have p: "try_post (endpoint k0) = None" unfolding k0_def using assms(2) by (rule LeastI)
  have le: "k0 \<le> k" unfolding k0_def using assms(2) by (rule Least_le)
  have before: "\<forall>i<k0. try_post (endpoint i) \<noteq> None"
    unfolding k0_def using not_less_Least by blast
  have "int k0 < max_retries self" using le assms(1) by simp
  from send_approval_event_delivered [of k0 self endpoint, OF this before p] le p
  show ?thesis by blast
qed

text \<open>
  Claim C8. An attempt succeeds exactly when the endpoint answers with a status from
  200 to 299. With a retry budget of at least 1, the delivery returns as delivered
  exactly when some attempt within the budget gets such an answer; and when the
  attempts up to the \<open>i\<close>-th have all ended in another status, a timeout or a connection
  error, and the budget allows one more, each of them is counted as a failure and the
  next attempt is made.
\<close>

theorem delivery_succeeds_exactly_on_2xx:
  "(try_post outcome = None \<longleftrightarrow> (\<exists>c. outcome = Response c \<and> 200 \<le> c \<and> c \<le> 299)) \<and>
   (1 \<le> max_retries self \<longrightarrow>
      (fst (send_approval_event self endpoint) = Delivered \<longleftrightarrow>
         (\<exists>k. int k < max_retries self \<and> (\<exists>c. endpoint k = Response c \<and> 200 \<le> c \<and> c \<le> 299)))) \<and>
   (int i + 1 < max_retries self \<and>
    (\<forall>j\<le>i. \<not> (\<exists>c. endpoint j = Response c \<and> 200 \<le> c \<and> c \<le> 299)) \<longrightarrow>
      i + 2 \<le> posts (snd (send_approval_event self endpoint)) \<and>
      i + 1 \<le> failures (snd (send_approval_event self endpoint)))"
proof -
  have classify: "try_post outcome = None \<longleftrightarrow> (\<exists>c. outcome = Response c \<and> 200 \<le> c \<and> c \<le> 299)"
    by (rule try_post_2xx)
  have delivered: "fst (send_approval_event self endpoint) = Delivered \<longleftrightarrow>
         (\<exists>k. int k < max_retries self \<and> (\<exists>c. endpoint k = Response c \<and> 200 \<le> c \<and> c \<le> 299))"
    if m: "1 \<le> max_retries self"
  proof (cases "\<exists>k. int k < max_retries self \<and> try_post (endpoint k) = None")
    case True
    then obtain k where k: "int k < max_retries self" "try_post (endpoint k) = None" by blast
    from first_success [of k self endpoint, OF k]
    have "fst (send_approval_event self endpoint) = Delivered" by auto
    then show ?thesis using True by (simp add: try_post_2xx)
  next
    case False
    then have "\<forall>i<nat (max_retries self). try_post (endpoint i) \<noteq> None" by auto
    from send_approval_event_exhausted [OF m this]
    have "fst (send_approval_event self endpoint) \<noteq> Delivered" by auto
    then show ?thesis using False by (simp add: try_post_2xx)
  qed
  have retried: "i + 2 \<le> posts (snd (send_approval_event self endpoint)) \<and>
      i + 1 \<le> failures (snd (send_approval_event self endpoint))"
    if h: "int i + 1 < max_retries self \<and>
      (\<forall>j\<le>i. \<not> (\<exists>c. endpoint j = Response c \<and> 200 \<le> c \<and> c \<le> 299))"
  proof -
    from h have fails: "\<forall>j\<le>i. try_post (endpoint j) \<noteq> None" by (simp add: try_post_2xx)
    have m: "1 \<le> max_retries self" using h by linarith
    show ?thesis
    proof (cases "\<exists>k. int k < max_retries self \<and> try_post (endpoint k) = None")
      case True
      then obtain k where k: "int k < max_retries self" "try_post (endpoint k) = None" by blast
      from first_success [of k self endpoint, OF k] obtain k0 where
        p: "try_post (endpoint k0) = None"
        and r: "send_approval_event self endpoint =
             (Delivered, \<lparr>posts = Suc k0,
                          sleeps = map (\<lambda>i. backoff_base self * 2 ^ i) [0..<k0],
                          failures = k0\<rparr>)"
        by blast
      have "i < k0" using fails p by (metis not_le_imp_less)
      then show ?thesis using r by simp
    next
      case False
      then have "\<forall>i<nat (max_retries self). try_post (endpoint i) \<noteq> None" by auto
      from send_approval_event_exhausted [OF m this] show ?thesis using h by auto
    qed
  qed
  from classify delivered retried show ?thesis by blast
qed

theorem delivery_succeeds_exactly_on_2xx_witness:
  "try_post (Response 204) = None \<and>
   try_post (Response 500) \<noteq> None \<and>
   try_post Timeout \<noteq> None \<and>
   try_post ConnectError \<noteq> None \<and>
   fst (send_approval_event default_client third_time_lucky) = Delivered \<and>
   fst (send_approval_event default_client always_failing) \<noteq> Delivered \<and>
   1 + 2 \<le> posts (snd (send_approval_event default_client third_time_lucky)) \<and>
   3 + 2 \<le> posts (snd (send_approval_event default_client always_failing))"
proof -
  have m: "max_retries default_client = 5" by (simp add: default_client_def)
  have lucky: "\<exists>k. int k < max_retries default_client \<and>
      (\<exists>c. third_time_lucky k = Response c \<and> 200 \<le> c \<and> c \<le> 299)"
    by (rule exI [of _ 2]) (simp add: m third_time_lucky_def)
  have never: "\<not> (\<exists>k. int k < max_retries default_client \<and>
      (\<exists>c. always_failing k = Response c \<and> 200 \<le> c \<and> c \<le> 299))"
    by (simp add: always_failing_def)
  have l1: "\<forall>j\<le>1. \<not> (\<exists>c. third_time_lucky j = Response c \<and> 200 \<le> c \<and> c \<le> 299)"
    by (simp add: third_time_lucky_def)
  have f3: "\<forall>j\<le>3. \<not> (\<exists>c. always_failing j = Response c \<and> 200 \<le> c \<and> c \<le> 299)"
    by (simp add: always_failing_def)
  show ?thesis
    using delivery_succeeds_exactly_on_2xx [of "Response 204" default_client third_time_lucky 1]
      delivery_succeeds_exactly_on_2xx [of "Response 500" default_client always_failing 3]
      delivery_succeeds_exactly_on_2xx [of Timeout default_client always_failing 3]
      delivery_succeeds_exactly_on_2xx [of ConnectError default_client always_failing 3]
      lucky never l1 f3
    by (simp add: m)
qed

end
